theory Spec2Isabelle
  imports Main
begin

section \<open>The users table and the connection pool\<close>

text \<open>
  The quota counters live in one relational table,
  \<^verbatim>\<open>users (user_id TEXT PRIMARY KEY, username, daily_image_count INTEGER, last_reset_date DATE)\<close>.
  A calendar date is the number of its day; \<open>CURRENT_DATE\<close> is supplied by the
  environment of a call. The table is a map from \<open>user_id\<close> to the rest of the row.
  Every insert of the sources gives a count and a date, so neither column is ever
  \<open>NULL\<close>; the counts the statements below can store stay far inside the range of
  \<open>INTEGER\<close>, so they are plain integers.
\<close>

type_synonym date = int

record user_row =
  username :: string
  daily_image_count :: int
  last_reset_date :: date

type_synonym users_table = "string \<rightharpoonup> user_row"

text \<open>
  What a call does to the shared pool and to its client is recorded, in order:
  \<open>pool.connect()\<close>, \<open>client.query(...)\<close> and \<open>client.release()\<close>.
\<close>

datatype db_event = Pool_connect | Client_query | Client_release

record db =
  users :: users_table
  events :: "db_event list"

definition log_event :: "db_event \<Rightarrow> db \<Rightarrow> db" where
  "log_event ev d = d\<lparr>events := events d @ [ev]\<rparr>"

text \<open>
  The environment of one call: the date the database reports, whether
  \<open>pool.connect()\<close> rejects, and which of the call's queries reject (by position,
  counted from 0). A rejected query leaves the table as it was.
\<close>

record env =
  today :: date
  connect_fails :: bool
  failing_queries :: "nat list"

definition query_fails :: "env \<Rightarrow> nat \<Rightarrow> bool" where
  "query_fails e n = (n \<in> set (failing_queries e))"

text \<open>An async function either resolves with a value or rejects (the exception escapes).\<close>

datatype 'a completion = Returns 'a | Rejects

section \<open>userLimits: reserveGenerationSlot, releaseReservedSlot, getUserStats\<close>

text \<open>
  The advisory texts of the source are Russian literals, some with holes for numbers;
  each is a constructor here, the holes its arguments.
  \<^item> \<open>Admin_unlimited\<close>: the administrator's unlimited-access text;
  \<^item> \<open>Trial_over_private dailyLimit\<close>: private chat, limit reached;
  \<^item> \<open>Group_limit_exhausted dailyLimit DAILY_LIMIT_PRIVATE\<close>: other chats, limit reached;
  \<^item> \<open>Slot_reserved_remaining remaining dailyLimit\<close> and \<open>Slot_reserved_last\<close>: slot granted;
  \<^item> \<open>Reservation_error_try_later\<close>: the text of the \<open>catch\<close> branch, "slot reservation
    error, try again later";
  \<^item> \<open>Stats_limit_exceeded currentCount dailyLimit\<close> and
    \<open>Stats_used currentCount dailyLimit remaining\<close>: the two texts of \<open>getUserStats\<close>.
\<close>

datatype advisory =
    Admin_unlimited
  | Trial_over_private int
  | Group_limit_exhausted int int
  | Slot_reserved_remaining int int
  | Slot_reserved_last
  | Reservation_error_try_later
  | Stats_limit_exceeded int int
  | Stats_used int int int

record UserLimitResult =
  canGenerate :: bool
  dailyCount :: int
  remaining :: int
  isAdmin :: bool
  limitReached :: bool
  message :: advisory

definition DAILY_LIMIT_PRIVATE :: int where
  "DAILY_LIMIT_PRIVATE = 3"

definition DAILY_LIMIT_GROUP :: int where
  "DAILY_LIMIT_GROUP = 30"

definition ADMIN_USER_ID :: string where
  "ADMIN_USER_ID = ''6913446846''"

definition daily_limit :: "string \<Rightarrow> int" where
  "daily_limit chatType =
     (if chatType = ''private'' then DAILY_LIMIT_PRIVATE else DAILY_LIMIT_GROUP)"

definition admin_result :: UserLimitResult where
  "admin_result =
     \<lparr>canGenerate = True, dailyCount = 0, remaining = 999, isAdmin = True,
      limitReached = False, message = Admin_unlimited\<rparr>"

text \<open>
  Step 1 of the reservation: \<open>INSERT ... ON CONFLICT (user_id) DO UPDATE SET ...\<close>.
  A missing row is created with count 0 and today's date; an existing row gets the new
  username, and count 0 and today's date when its date is before today.
\<close>

definition upsert_user :: "date \<Rightarrow> string \<Rightarrow> string \<Rightarrow> users_table \<Rightarrow> users_table" where
  "upsert_user day userId uname us =
     (case us userId of
        None \<Rightarrow>
          us(userId \<mapsto> \<lparr>username = uname, daily_image_count = 0, last_reset_date = day\<rparr>)
      | Some r \<Rightarrow>
          us(userId \<mapsto>
            \<lparr>username = uname,
             daily_image_count =
               (if last_reset_date r < day then 0 else daily_image_count r),
             last_reset_date =
               (if last_reset_date r < day then day else last_reset_date r)\<rparr>))"

text \<open>
  Step 2: \<open>UPDATE users SET daily_image_count = daily_image_count + 1
  WHERE user_id = $1 AND daily_image_count < $2 RETURNING daily_image_count\<close>.
  The result is the returned row's count, if a row was updated.
\<close>

definition increment_if_below :: "string \<Rightarrow> int \<Rightarrow> users_table \<Rightarrow> int option \<times> users_table" where
  "increment_if_below userId lim us =
     (case us userId of
        None \<Rightarrow> (None, us)
      | Some r \<Rightarrow>
          if daily_image_count r < lim
          then (Some (daily_image_count r + 1),
                us(userId \<mapsto> r\<lparr>daily_image_count := daily_image_count r + 1\<rparr>))
          else (None, us))"

definition reservation_error :: UserLimitResult where
  "reservation_error =
     \<lparr>canGenerate = False, dailyCount = 0, remaining = 0, isAdmin = False,
      limitReached = True, message = Reservation_error_try_later\<rparr>"

definition limit_reached_result :: "string \<Rightarrow> int \<Rightarrow> UserLimitResult" where
  "limit_reached_result chatType dailyLimit =
     \<lparr>canGenerate = False, dailyCount = dailyLimit, remaining = 0, isAdmin = False,
      limitReached = True,
      message = (if chatType = ''private'' then Trial_over_private dailyLimit
                 else Group_limit_exhausted dailyLimit DAILY_LIMIT_PRIVATE)\<rparr>"

definition slot_reserved_result :: "int \<Rightarrow> int \<Rightarrow> UserLimitResult" where
  "slot_reserved_result dailyLimit finalCount =
     (let remaining = max 0 (dailyLimit - finalCount) in
      \<lparr>canGenerate = True, dailyCount = finalCount, remaining = remaining, isAdmin = False,
       limitReached = False,
       message = (if remaining > 0 then Slot_reserved_remaining remaining dailyLimit
                  else Slot_reserved_last)\<rparr>)"

text \<open>
  The body of \<open>reserveGenerationSlot\<close> between \<open>try\<close> and \<open>finally\<close>, with the client
  already checked out. A rejecting query is caught and answered with
  \<open>reservation_error\<close>.
\<close>

definition reserve_body :: "env \<Rightarrow> string \<Rightarrow> string \<Rightarrow> string \<Rightarrow> db \<Rightarrow> UserLimitResult \<times> db" where
  "reserve_body e userId uname chatType d =
     (if userId = ADMIN_USER_ID then (admin_result, d)
      else
        let dailyLimit = daily_limit chatType;
            d1 = log_event Client_query d
        in if query_fails e 0 then (reservation_error, d1)
           else
             let d2 = d1\<lparr>users := upsert_user (today e) userId uname (users d1)\<rparr>;
                 d3 = log_event Client_query d2
             in if query_fails e 1 then (reservation_error, d3)
                else
                  case increment_if_below userId dailyLimit (users d3) of
                    (None, us) \<Rightarrow> (limit_reached_result chatType dailyLimit, d3\<lparr>users := us\<rparr>)
                  | (Some finalCount, us) \<Rightarrow>
                      (slot_reserved_result dailyLimit finalCount, d3\<lparr>users := us\<rparr>))"

text \<open>
  \<open>reserveGenerationSlot\<close>: the client is checked out of the pool before the
  \<open>try\<close>, so a rejecting \<open>pool.connect()\<close> escapes; otherwise the body runs and the
  client is released in \<open>finally\<close>.
\<close>

definition reserveGenerationSlot ::
  "env \<Rightarrow> string \<Rightarrow> string \<Rightarrow> string \<Rightarrow> db \<Rightarrow> UserLimitResult completion \<times> db" where
  "reserveGenerationSlot e userId uname chatType d =
     (let d0 = log_event Pool_connect d in
      if connect_fails e then (Rejects, d0)
      else case reserve_body e userId uname chatType d0 of
             (r, d1) \<Rightarrow> (Returns r, log_event Client_release d1))"

text \<open>
  The query of \<open>releaseReservedSlot\<close>:
  \<open>UPDATE users SET daily_image_count = GREATEST(daily_image_count - 1, 0)
  WHERE user_id = $1 AND last_reset_date = CURRENT_DATE AND daily_image_count > 0\<close>.
\<close>

definition decrement_today :: "date \<Rightarrow> string \<Rightarrow> users_table \<Rightarrow> users_table" where
  "decrement_today day userId us =
     (case us userId of
        None \<Rightarrow> us
      | Some r \<Rightarrow>
          if last_reset_date r = day \<and> daily_image_count r > 0
          then us(userId \<mapsto> r\<lparr>daily_image_count := max (daily_image_count r - 1) 0\<rparr>)
          else us)"

definition release_body :: "env \<Rightarrow> string \<Rightarrow> db \<Rightarrow> db" where
  "release_body e userId d =
     (if userId = ADMIN_USER_ID then d
      else
        let d1 = log_event Client_query d
        in if query_fails e 0 then d1
           else d1\<lparr>users := decrement_today (today e) userId (users d1)\<rparr>)"

definition releaseReservedSlot :: "env \<Rightarrow> string \<Rightarrow> db \<Rightarrow> unit completion \<times> db" where
  "releaseReservedSlot e userId d =
     (let d0 = log_event Pool_connect d in
      if connect_fails e then (Rejects, d0)
      else (Returns (), log_event Client_release (release_body e userId d0)))"

text \<open>
  The query of \<open>getUserStats\<close> selects
  \<open>CASE WHEN last_reset_date < CURRENT_DATE THEN 0 ELSE daily_image_count END\<close>
  of the user's row, if there is one.
\<close>

definition current_count :: "date \<Rightarrow> string \<Rightarrow> users_table \<Rightarrow> int option" where
  "current_count day userId us =
     (case us userId of
        None \<Rightarrow> None
      | Some r \<Rightarrow> Some (if last_reset_date r < day then 0 else daily_image_count r))"

definition stats_result :: "int \<Rightarrow> int \<Rightarrow> UserLimitResult" where
  "stats_result dailyLimit currentCount =
     (let remaining = max 0 (dailyLimit - currentCount);
          reached = (currentCount \<ge> dailyLimit)
      in \<lparr>canGenerate = \<not> reached, dailyCount = currentCount, remaining = remaining,
          isAdmin = False, limitReached = reached,
          message = (if reached then Stats_limit_exceeded currentCount dailyLimit
                     else Stats_used currentCount dailyLimit remaining)\<rparr>)"

text \<open>The result \<open>None\<close> is the source's \<open>null\<close>.\<close>

definition stats_body :: "env \<Rightarrow> string \<Rightarrow> string \<Rightarrow> db \<Rightarrow> UserLimitResult option \<times> db" where
  "stats_body e userId chatType d =
     (if userId = ADMIN_USER_ID then (Some admin_result, d)
      else
        let d1 = log_event Client_query d
        in if query_fails e 0 then (None, d1)
           else case current_count (today e) userId (users d1) of
                  None \<Rightarrow> (None, d1)
                | Some c \<Rightarrow> (Some (stats_result (daily_limit chatType) c), d1))"

definition getUserStats ::
  "env \<Rightarrow> string \<Rightarrow> string \<Rightarrow> db \<Rightarrow> UserLimitResult option completion \<times> db" where
  "getUserStats e userId chatType d =
     (let d0 = log_event Pool_connect d in
      if connect_fails e then (Rejects, d0)
      else case stats_body e userId chatType d0 of
             (r, d1) \<Rightarrow> (Returns r, log_event Client_release d1))"

text \<open>An environment in which the database answers every call.\<close>

definition healthy :: "date \<Rightarrow> env" where
  "healthy day = \<lparr>today = day, connect_fails = False, failing_queries = []\<rparr>"

section \<open>Concurrent reservations\<close>

text \<open>
  Request handlers run concurrently and interleave at every \<open>await\<close>. One call of
  \<open>reserveGenerationSlot\<close> awaits three times: \<open>pool.connect()\<close>, the upsert and the
  conditional update; the code between two awaits runs without interruption, and each
  statement takes effect in the database as one step. A call is therefore in one of four
  states, and \<open>reserve_step\<close> runs it from one await to the next. The flag says that the
  awaited operation rejects.
\<close>

datatype call_state =
    Issued
  | Connected
  | Upserted
  | Finished "UserLimitResult completion"

definition reserve_step ::
  "date \<Rightarrow> bool \<Rightarrow> string \<Rightarrow> string \<Rightarrow> string \<Rightarrow> call_state \<Rightarrow> db \<Rightarrow> call_state \<times> db" where
  "reserve_step day rejects userId uname chatType st d =
     (case st of
        Issued \<Rightarrow>
          (let d0 = log_event Pool_connect d in
           if rejects then (Finished Rejects, d0)
           else if userId = ADMIN_USER_ID
             then (Finished (Returns admin_result), log_event Client_release d0)
           else (Connected, log_event Client_query d0))
      | Connected \<Rightarrow>
          (if rejects then (Finished (Returns reservation_error), log_event Client_release d)
           else (Upserted,
                 log_event Client_query (d\<lparr>users := upsert_user day userId uname (users d)\<rparr>)))
      | Upserted \<Rightarrow>
          (if rejects then (Finished (Returns reservation_error), log_event Client_release d)
           else
             case increment_if_below userId (daily_limit chatType) (users d) of
               (None, us) \<Rightarrow>
                 (Finished (Returns (limit_reached_result chatType (daily_limit chatType))),
                  log_event Client_release (d\<lparr>users := us\<rparr>))
             | (Some finalCount, us) \<Rightarrow>
                 (Finished (Returns (slot_reserved_result (daily_limit chatType) finalCount)),
                  log_event Client_release (d\<lparr>users := us\<rparr>)))
      | Finished r \<Rightarrow> (Finished r, d))"

text \<open>
  The calls in flight for one user, each with the username it was given, and a schedule:
  which call moves next, and whether the operation it awaits rejects.
\<close>

type_synonym calls = "(string \<times> call_state) list"

type_synonym schedule = "(nat \<times> bool) list"

fun run_schedule ::
  "date \<Rightarrow> string \<Rightarrow> string \<Rightarrow> schedule \<Rightarrow> calls \<times> db \<Rightarrow> calls \<times> db" where
  "run_schedule day userId chatType [] s = s"
| "run_schedule day userId chatType ((i, rejects) # sch) (cs, d) =
     (if i < length cs
      then (case reserve_step day rejects userId (fst (cs ! i)) chatType (snd (cs ! i)) d of
              (st, d') \<Rightarrow> run_schedule day userId chatType sch (cs[i := (fst (cs ! i), st)], d'))
      else run_schedule day userId chatType sch (cs, d))"

definition granted :: "call_state \<Rightarrow> bool" where
  "granted st = (case st of Finished (Returns r) \<Rightarrow> canGenerate r | _ \<Rightarrow> False)"

definition grants :: "calls \<Rightarrow> nat" where
  "grants cs = length (filter (\<lambda>c. granted (snd c)) cs)"

definition issued :: "string list \<Rightarrow> calls" where
  "issued unames = map (\<lambda>u. (u, Issued)) unames"

text \<open>
  The count a user has consumed today, as every query reads it: 0 without a row or with
  a row dated before today.
\<close>

definition effective_count :: "date \<Rightarrow> string \<Rightarrow> users_table \<Rightarrow> int" where
  "effective_count day userId us =
     (case us userId of
        None \<Rightarrow> 0
      | Some r \<Rightarrow> if last_reset_date r < day then 0 else daily_image_count r)"

section \<open>The workflow: step1 (reserve and generate) and step2 (deliver)\<close>

text \<open>
  JavaScript truthiness of an optional string: defined and not empty.
\<close>

definition truthy :: "string option \<Rightarrow> bool" where
  "truthy s = (case s of None \<Rightarrow> False | Some v \<Rightarrow> v \<noteq> [])"

definition or_else :: "string option \<Rightarrow> string \<Rightarrow> string" where
  "or_else s dflt = (if truthy s then the s else dflt)"

definition has_files :: "string list option \<Rightarrow> bool" where
  "has_files fs = (case fs of None \<Rightarrow> False | Some xs \<Rightarrow> length xs > 0)"

text \<open>
  The text of a message is tested with \<open>trim()\<close>, which works on the UTF-16 code units
  of a JavaScript string, so the message is the list of its code units; \<open>code_units\<close>
  gives those of an ASCII literal. A message is blank when \<open>trim()\<close> leaves nothing: all
  its code units are white space or line terminators of ECMAScript (tab, line feed,
  vertical tab, form feed, carriage return, space, no-break space, U+1680, U+2000 to
  U+200A, U+2028, U+2029, U+202F, U+205F, U+3000, U+FEFF).
\<close>

type_synonym js_text = "nat list"

definition code_units :: "string \<Rightarrow> js_text" where
  "code_units s = map of_char s"

definition white_space :: "nat \<Rightarrow> bool" where
  "white_space c =
     (c \<in> set [0x09, 0x0A, 0x0B, 0x0C, 0x0D, 0x20, 0xA0, 0x1680, 0x2028, 0x2029, 0x202F,
                0x205F, 0x3000, 0xFEFF]
      \<or> (0x2000 \<le> c \<and> c \<le> 0x200A))"

definition blank :: "js_text \<Rightarrow> bool" where
  "blank s = list_all white_space s"

record step1_input =
  in_message :: js_text
  in_fileIds :: "string list option"
  in_chatId :: string
  in_userId :: string
  in_userName :: "string option"
  in_messageId :: "string option"
  in_threadId :: string
  in_chatType :: string

text \<open>
  The replies of step1, literals of the source:
  \<^item> \<open>Greeting\<close>, the answer to \<open>/start\<close>;
  \<^item> \<open>Ask_one_photo\<close> and \<open>Ask_many_photos\<close>, for photos sent without text;
  \<^item> \<open>Limit_group_30\<close> ("the chat's limit is used up (30/30)") and \<open>Limit_private_3\<close>
    ("your limit for today is used up: 3/3, come back tomorrow"), shown when the
    reservation says \<open>canGenerate = false\<close>;
  \<^item> \<open>Description text\<close>, the generator's description, and \<open>Image_ready\<close>, its default;
  \<^item> \<open>Generation_failed error attemptsLeft\<close>: the generator's error (or the default text
    when there is none) followed, for a non-administrator, by the attempts left out of 5;
  \<^item> \<open>Not_generated\<close>: success reported without an image;
  \<^item> \<open>Generation_error_contact_admin\<close>: the reply of the outer \<open>catch\<close>.
\<close>

datatype reply =
    Greeting
  | Ask_one_photo
  | Ask_many_photos
  | Limit_group_30
  | Limit_private_3
  | Description string
  | Image_ready
  | Generation_failed "string option" "int option"
  | Not_generated
  | Generation_error_contact_admin

record step1_output =
  out_response :: reply
  out_imagePath :: "string option"
  out_chatId :: string
  out_messageId :: "string option"
  out_success :: bool
  out_imageSent :: "bool option"
  out_userId :: string

text \<open>
  \<open>generateImageWithHubaiGemini\<close> calls a vendor; what it answers is the environment's.
\<close>

record HubaiGeminiResult =
  hg_success :: bool
  hg_imageBase64 :: "string option"
  hg_description :: "string option"
  hg_error :: "string option"

datatype generator_outcome = Generator_returns HubaiGeminiResult | Generator_throws string

text \<open>
  The environment of step1: the database's behaviour at the reservation, at the release
  after a failed generation and at the release of the outer \<open>catch\<close>; the generator's
  answer; the random id of the temporary file and whether writing it succeeds.
\<close>

record step1_env =
  reserve_env :: env
  release_env :: env
  catch_release_env :: env
  generator :: generator_outcome
  image_id :: string
  temp_file_written :: bool

definition plain_reply :: "step1_input \<Rightarrow> reply \<Rightarrow> step1_output" where
  "plain_reply i r =
     \<lparr>out_response = r, out_imagePath = None, out_chatId = in_chatId i,
      out_messageId = in_messageId i, out_success = True, out_imageSent = Some False,
      out_userId = in_userId i\<rparr>"

definition limit_reply :: "step1_input \<Rightarrow> step1_output" where
  "limit_reply i =
     \<lparr>out_response =
        (if in_chatType i = ''group'' \<or> in_chatType i = ''supergroup''
         then Limit_group_30 else Limit_private_3),
      out_imagePath = None, out_chatId = in_chatId i, out_messageId = in_messageId i,
      out_success = False, out_imageSent = None, out_userId = in_userId i\<rparr>"

definition error_reply :: "step1_input \<Rightarrow> step1_output" where
  "error_reply i =
     \<lparr>out_response = Generation_error_contact_admin, out_imagePath = None,
      out_chatId = in_chatId i, out_messageId = in_messageId i, out_success = False,
      out_imageSent = Some False, out_userId = in_userId i\<rparr>"

definition image_reply :: "step1_input \<Rightarrow> HubaiGeminiResult \<Rightarrow> string \<Rightarrow> step1_output" where
  "image_reply i res path =
     \<lparr>out_response = (if truthy (hg_description res) then Description (the (hg_description res))
                       else Image_ready),
      out_imagePath = Some path, out_chatId = in_chatId i, out_messageId = in_messageId i,
      out_success = True, out_imageSent = Some False, out_userId = in_userId i\<rparr>"

definition no_image_reply :: "step1_input \<Rightarrow> UserLimitResult \<Rightarrow> HubaiGeminiResult \<Rightarrow> step1_output" where
  "no_image_reply i slot res =
     \<lparr>out_response =
        (if \<not> hg_success res
         then Generation_failed
                (if truthy (hg_error res) then hg_error res else None)
                (if isAdmin slot then None else Some (min (remaining slot + 1) 5))
         else Not_generated),
      out_imagePath = None, out_chatId = in_chatId i, out_messageId = in_messageId i,
      out_success = hg_success res, out_imageSent = None, out_userId = in_userId i\<rparr>"

text \<open>The generator's answer as step1 sees it: an exception becomes a failed result.\<close>

definition generation_result :: "generator_outcome \<Rightarrow> HubaiGeminiResult" where
  "generation_result g =
     (case g of
        Generator_returns res \<Rightarrow> res
      | Generator_throws m \<Rightarrow>
          \<lparr>hg_success = False, hg_imageBase64 = None, hg_description = None,
           hg_error = Some (''Exception in generateImageWithHubaiGemini: '' @ m)\<rparr>)"

text \<open>
  step1 after a granted reservation: generate; on failure release the slot (unless the
  reservation was the administrator's); on success write the image to a temporary file
  and pass its path on (or the base64 text itself when the file cannot be written).
  A rejecting release lands in the outer \<open>catch\<close>, which tries the release once more,
  ignores its failure, and answers with the error reply.
\<close>

definition after_reservation :: "step1_env \<Rightarrow> step1_input \<Rightarrow> UserLimitResult \<Rightarrow> db \<Rightarrow> step1_output \<times> db" where
  "after_reservation e i slot d =
     (let res = generation_result (generator e);
          released =
            (if \<not> hg_success res \<and> \<not> isAdmin slot
             then releaseReservedSlot (release_env e) (in_userId i) d
             else (Returns (), d))
      in case released of
           (Rejects, d1) \<Rightarrow>
             (if canGenerate slot \<and> \<not> isAdmin slot
              then (error_reply i, snd (releaseReservedSlot (catch_release_env e) (in_userId i) d1))
              else (error_reply i, d1))
         | (Returns u, d1) \<Rightarrow>
             (if hg_success res \<and> truthy (hg_imageBase64 res)
              then (image_reply i res
                      (if temp_file_written e
                       then ''/tmp/nano_banana_'' @ image_id e @ ''.jpg''
                       else the (hg_imageBase64 res)),
                    d1)
              else (no_image_reply i slot res, d1)))"

definition step1 :: "step1_env \<Rightarrow> step1_input \<Rightarrow> db \<Rightarrow> step1_output \<times> db" where
  "step1 e i d =
     (if in_message i = code_units ''/start'' then (plain_reply i Greeting, d)
      else if has_files (in_fileIds i) \<and> (in_message i = [] \<or> blank (in_message i))
        then (plain_reply i
                (if length (the (in_fileIds i)) = 1 then Ask_one_photo else Ask_many_photos), d)
      else
        case reserveGenerationSlot (reserve_env e) (in_userId i)
               (or_else (in_userName i) ''Unknown'')
               (if in_chatType i = [] then ''private'' else in_chatType i) d of
          (Rejects, d1) \<Rightarrow> (error_reply i, d1)
        | (Returns slot, d1) \<Rightarrow>
            if \<not> canGenerate slot then (limit_reply i, d1)
            else after_reservation e i slot d1)"

text \<open>
  step2 sends the reply to Telegram. The environment says whether the bot token is set,
  whether the temporary file can be read, whether \<open>mastra\<close> supplies a logger, and what
  Telegram answers: the request (or the decoding of its body) throws, or a response
  arrives with its \<open>ok\<close> flag and its decoded body. The body is JSON \<open>null\<close>, or a
  value of which step2 reads \<open>result?.message_id?.toString()\<close>, the id of the sent
  message, if any. Reading \<open>.result\<close> off \<open>null\<close> throws; step2 does so in the
  arguments of \<open>logger?.info\<close> (evaluated only when there is a logger), when it forwards
  the photo (inside a \<open>try\<close> of its own) and when it builds its result.
\<close>

datatype telegram_body = Null_body | Body "string option"

datatype telegram_outcome = Request_throws | Response bool telegram_body

record step2_env =
  token_present :: bool
  temp_file_readable :: bool
  logger_present :: bool
  telegram :: telegram_outcome

record step2_output =
  sent_success :: bool
  sentMessageId :: "string option"

definition starts_with :: "string \<Rightarrow> string \<Rightarrow> bool" where
  "starts_with p s = (take (length p) s = p)"

definition not_sent :: step2_output where
  "not_sent = \<lparr>sent_success = False, sentMessageId = None\<rparr>"

text \<open>
  Modelled from the spec: \<open>server/storage.ts\<close>, which defines
  \<open>incrementUserImageCount\<close>, is not among the sources. The persisted layout has one
  counter per user, \<open>daily_image_count\<close>; the repository's database notes introduce the
  helper as "Increment user's daily count", and \<open>generateNanoBananoImage\<close> reads
  \<open>daily_image_count\<close> off the row it returns. The model adds 1 to the count of the
  user's row; \<open>None\<close> stands for a rejected call. step2 below takes the helper as a
  parameter, so that what step2 itself does is stated for any helper.
\<close>

definition incrementUserImageCount :: "string \<Rightarrow> users_table \<Rightarrow> users_table option" where
  "incrementUserImageCount userId us =
     (case us userId of
        None \<Rightarrow> None
      | Some r \<Rightarrow> Some (us(userId \<mapsto> r\<lparr>daily_image_count := daily_image_count r + 1\<rparr>)))"

text \<open>
  After a photo was sent, step2 calls the helper on the user's id inside its own
  \<open>try\<close>: a rejected call changes nothing and is ignored. Forwarding the photo to the
  administrator's chat follows; it has no part in the table or in the result, and its
  failure is ignored as well.
\<close>

definition count_delivery ::
  "(string \<Rightarrow> users_table \<Rightarrow> users_table option) \<Rightarrow> string \<Rightarrow> db \<Rightarrow> db" where
  "count_delivery incr userId d =
     (case incr userId (users d) of None \<Rightarrow> d | Some us \<Rightarrow> d\<lparr>users := us\<rparr>)"

definition step2 ::
  "(string \<Rightarrow> users_table \<Rightarrow> users_table option) \<Rightarrow> step2_env \<Rightarrow> step1_output \<Rightarrow> db
     \<Rightarrow> step2_output \<times> db" where
  "step2 incr e i d =
     (if \<not> token_present e then (not_sent, d)
      else if truthy (out_imagePath i) then
        (if starts_with ''/tmp/'' (the (out_imagePath i)) \<and> \<not> temp_file_readable e
         then (not_sent, d)
         else case telegram e of
                Request_throws \<Rightarrow> (not_sent, d)
              | Response ok body \<Rightarrow>
                  if \<not> ok then (not_sent, d)
                  else (case body of
                          Body mid \<Rightarrow>
                            (\<lparr>sent_success = True, sentMessageId = mid\<rparr>,
                             count_delivery incr (out_userId i) d)
                        | Null_body \<Rightarrow>
                            if logger_present e then (not_sent, d)
                            else (not_sent, count_delivery incr (out_userId i) d)))
      else
        (case telegram e of
           Request_throws \<Rightarrow> (not_sent, d)
         | Response ok body \<Rightarrow>
             if \<not> ok then (not_sent, d)
             else (case body of
                     Body mid \<Rightarrow> (\<lparr>sent_success = True, sentMessageId = mid\<rparr>, d)
                   | Null_body \<Rightarrow> (not_sent, d))))"

text \<open>
  The delivery fails when the token is missing, the temporary file cannot be read, the
  request throws or Telegram's response is not \<open>ok\<close>.
\<close>

definition delivery_fails :: "step2_env \<Rightarrow> step1_output \<Rightarrow> bool" where
  "delivery_fails e i =
     (\<not> token_present e
      \<or> (truthy (out_imagePath i) \<and> starts_with ''/tmp/'' (the (out_imagePath i))
           \<and> \<not> temp_file_readable e)
      \<or> (case telegram e of Request_throws \<Rightarrow> True | Response ok body \<Rightarrow> \<not> ok))"

text \<open>The workflow is step1, then step2 on step1's output.\<close>

definition telegramBotWorkflow ::
  "(string \<Rightarrow> users_table \<Rightarrow> users_table option) \<Rightarrow> step1_env \<Rightarrow> step2_env \<Rightarrow> step1_input \<Rightarrow> db
     \<Rightarrow> step2_output \<times> db" where
  "telegramBotWorkflow incr e1 e2 i d =
     (case step1 e1 i d of (out1, d1) \<Rightarrow> step2 incr e2 out1 d1)"

section \<open>nanoBananoGenerator: the fallback chain\<close>

text \<open>
  \<open>generateNanoBananoImage\<close> tries its generation methods in the order of the array
  \<open>generationMethods\<close>. What a method answers is the environment's: it returns
  \<open>{success, imageBase64?, message?}\<close> or throws. After a success the function awaits
  \<open>saveImageGeneration\<close> and \<open>incrementUserImageCount\<close> (both of \<open>server/storage.ts\<close>,
  not among the sources, so their answers are the environment's too): either one of them
  throws, or the updated row's count comes back.
\<close>

datatype method_outcome =
    Method_returns bool "string option" "string option"
  | Method_throws string

datatype bookkeeping = Bookkeeping_throws string | Counted int

record attempt =
  answer :: method_outcome
  after_success :: bookkeeping

text \<open>
  \<open>lastError\<close> is a string: the text a method reported or threw, or the literal
  "unknown error" (\<open>Unknown_error\<close>) when a method reported none.
\<close>

datatype error_text = Error_text string | Unknown_error

text \<open>
  The user-facing texts of the generator:
  \<^item> \<open>Api_key_missing\<close>, \<open>Daily_limit_exceeded\<close>, \<open>Critical_error\<close>;
  \<^item> \<open>Created_from_photo\<close> and \<open>Generated_for prompt\<close>, the two success texts;
  \<^item> \<open>All_methods_failed\<close>: "could not generate the image, try another description".
\<close>

datatype nb_text =
    Api_key_missing
  | Daily_limit_exceeded
  | Created_from_photo
  | Generated_for string
  | All_methods_failed
  | Critical_error

record NanoBananoRequest =
  rq_prompt :: string
  rq_userId :: string
  rq_chatId :: string
  rq_username :: "string option"
  rq_sourceImages :: "string list option"

record NanoBananoResult =
  nb_success :: bool
  nb_imageBase64 :: "string option"
  nb_message :: nb_text
  nb_dailyCount :: "int option"
  nb_limitReached :: bool

definition generated_result :: "NanoBananoRequest \<Rightarrow> string \<Rightarrow> int \<Rightarrow> NanoBananoResult" where
  "generated_result rq img cnt =
     \<lparr>nb_success = True, nb_imageBase64 = Some img,
      nb_message = (if has_files (rq_sourceImages rq) then Created_from_photo
                    else Generated_for (rq_prompt rq)),
      nb_dailyCount = Some cnt, nb_limitReached = False\<rparr>"

definition failure_result :: "nb_text \<Rightarrow> NanoBananoResult" where
  "failure_result m =
     \<lparr>nb_success = False, nb_imageBase64 = None, nb_message = m, nb_dailyCount = None,
      nb_limitReached = False\<rparr>"

definition reported_error :: "string option \<Rightarrow> error_text" where
  "reported_error m = (if truthy m then Error_text (the m) else Unknown_error)"

text \<open>
  The \<open>for\<close> loop over the methods, with \<open>lastError\<close> and the number of methods invoked
  so far. It ends with the result returned from inside the loop, if any, the final
  \<open>lastError\<close> and the number of methods invoked. The \<open>catch\<close> of the loop body covers
  the method and the two calls that follow its success.
\<close>

fun try_methods ::
  "NanoBananoRequest \<Rightarrow> attempt list \<Rightarrow> error_text \<Rightarrow> nat
     \<Rightarrow> NanoBananoResult option \<times> error_text \<times> nat" where
  "try_methods rq [] lastError n = (None, lastError, n)"
| "try_methods rq (a # rest) lastError n =
     (case answer a of
        Method_throws m \<Rightarrow> try_methods rq rest (Error_text m) (Suc n)
      | Method_returns ok img msg \<Rightarrow>
          if ok \<and> truthy img
          then (case after_success a of
                  Bookkeeping_throws m \<Rightarrow> try_methods rq rest (Error_text m) (Suc n)
                | Counted cnt \<Rightarrow> (Some (generated_result rq (the img) cnt), lastError, Suc n))
          else try_methods rq rest (reported_error msg) (Suc n))"

text \<open>
  The environment of one call: whether \<open>HUBAI_API_KEY\<close> is set, whether \<open>upsertUser\<close>
  throws, what \<open>isAdminUser\<close> says, what \<open>hasReachedDailyLimit\<close> answers (\<open>None\<close>: it
  throws), and the answers of the methods in their order.
\<close>

record nb_env =
  has_api_key :: bool
  upsert_throws :: bool
  is_admin_user :: bool
  limit_check :: "bool option"
  attempts :: "attempt list"

text \<open>
  Besides its result the function leaves a trace: how many methods it invoked, and the
  \<open>lastError\<close> it wrote to the error log when all of them failed.
\<close>

record nb_trace =
  invoked :: nat
  logged_error :: "error_text option"

definition generateNanoBananoImage :: "nb_env \<Rightarrow> NanoBananoRequest \<Rightarrow> NanoBananoResult \<times> nb_trace" where
  "generateNanoBananoImage e rq =
     (if \<not> has_api_key e
      then (failure_result Api_key_missing, \<lparr>invoked = 0, logged_error = None\<rparr>)
      else if upsert_throws e
      then (failure_result Critical_error, \<lparr>invoked = 0, logged_error = None\<rparr>)
      else case limit_check e of
             None \<Rightarrow> (failure_result Critical_error, \<lparr>invoked = 0, logged_error = None\<rparr>)
           | Some reached \<Rightarrow>
               if reached \<and> \<not> is_admin_user e
               then (\<lparr>nb_success = False, nb_imageBase64 = None,
                      nb_message = Daily_limit_exceeded, nb_dailyCount = Some 15,
                      nb_limitReached = True\<rparr>,
                     \<lparr>invoked = 0, logged_error = None\<rparr>)
               else (case try_methods rq (attempts e) (Error_text []) 0 of
                       (Some res, lastError, n) \<Rightarrow> (res, \<lparr>invoked = n, logged_error = None\<rparr>)
                     | (None, lastError, n) \<Rightarrow>
                         (failure_result All_methods_failed,
                          \<lparr>invoked = n, logged_error = Some lastError\<rparr>)))"

text \<open>A method's answer counts as a success when it reports success with a non-empty image.\<close>

definition succeeds :: "method_outcome \<Rightarrow> bool" where
  "succeeds m = (case m of Method_returns ok img msg \<Rightarrow> ok \<and> truthy img | Method_throws x \<Rightarrow> False)"

definition method_error :: "method_outcome \<Rightarrow> error_text" where
  "method_error m = (case m of Method_returns ok img msg \<Rightarrow> reported_error msg
                     | Method_throws x \<Rightarrow> Error_text x)"

section \<open>Invariant of concurrent reservations\<close>

text \<open>
  A row is current when it exists and is not dated before today. The headroom of a user is
  what is left of the limit above the effective count. While calls are in flight, the
  number of grants so far plus the headroom never grows, and a call that has done its
  upsert finds a current row.
\<close>

definition row_is_current :: "date \<Rightarrow> string \<Rightarrow> users_table \<Rightarrow> bool" where
  "row_is_current day userId us =
     (case us userId of None \<Rightarrow> False | Some r \<Rightarrow> day \<le> last_reset_date r)"

definition headroom :: "date \<Rightarrow> string \<Rightarrow> string \<Rightarrow> users_table \<Rightarrow> int" where
  "headroom day userId chatType us =
     max 0 (daily_limit chatType - effective_count day userId us)"

definition reservation_invariant ::
  "date \<Rightarrow> string \<Rightarrow> string \<Rightarrow> int \<Rightarrow> calls \<times> db \<Rightarrow> bool" where
  "reservation_invariant day userId chatType bound s =
     (case s of (cs, d) \<Rightarrow>
        (list_ex (\<lambda>c. snd c = Upserted) cs \<longrightarrow> row_is_current day userId (users d)) \<and>
        int (grants cs) + headroom day userId chatType (users d) \<le> bound)"

definition grant_value :: "call_state \<Rightarrow> int" where
  "grant_value st = (if granted st then 1 else 0)"

section \<open>Example data\<close>

text \<open>A user ''42'' named ann, with a given count and date of last reset.\<close>

definition ann_row :: "int \<Rightarrow> date \<Rightarrow> user_row" where
  "ann_row c day = \<lparr>username = ''ann'', daily_image_count = c, last_reset_date = day\<rparr>"

definition ann_db :: "int \<Rightarrow> date \<Rightarrow> db" where
  "ann_db c day = \<lparr>users = [''42'' \<mapsto> ann_row c day], events = []\<rparr>"

text \<open>
  A request of ann's in a private chat; a database whose first query rejects; a generator
  that produces a picture; a Telegram that accepts what it is sent.
\<close>

definition ann_request :: step1_input where
  "ann_request =
     \<lparr>in_message = code_units ''a cat'', in_fileIds = None, in_chatId = ''42'', in_userId = ''42'',
      in_userName = Some ''ann'', in_messageId = Some ''7'', in_threadId = ''t'',
      in_chatType = ''private''\<rparr>"

definition storage_down :: env where
  "storage_down = \<lparr>today = 100, connect_fails = False, failing_queries = [0]\<rparr>"

definition picture :: HubaiGeminiResult where
  "picture = \<lparr>hg_success = True, hg_imageBase64 = Some ''iVBORw0KGgo='',
               hg_description = None, hg_error = None\<rparr>"

definition all_well :: "env \<Rightarrow> step1_env" where
  "all_well e =
     \<lparr>reserve_env = e, release_env = healthy 100, catch_release_env = healthy 100,
      generator = Generator_returns picture, image_id = ''0a1b'', temp_file_written = True\<rparr>"

definition delivered :: step2_env where
  "delivered = \<lparr>token_present = True, temp_file_readable = True, logger_present = True,
                 telegram = Response True (Body (Some ''99''))\<rparr>"

text \<open>
  A call of the generator with every check before the loop passed; a method that reports a
  failure with a text, and one that produces an image.
\<close>

definition cat_request :: NanoBananoRequest where
  "cat_request = \<lparr>rq_prompt = ''a cat'', rq_userId = ''42'', rq_chatId = ''42'',
                   rq_username = Some ''ann'', rq_sourceImages = None\<rparr>"

definition chain :: "attempt list \<Rightarrow> nb_env" where
  "chain as = \<lparr>has_api_key = True, upsert_throws = False, is_admin_user = False,
               limit_check = Some False, attempts = as\<rparr>"

definition fails_with :: "string \<Rightarrow> attempt" where
  "fails_with m = \<lparr>answer = Method_returns False None (Some m), after_success = Counted 0\<rparr>"

definition produces :: "string \<Rightarrow> bookkeeping \<Rightarrow> attempt" where
  "produces img b = \<lparr>answer = Method_returns True (Some img) None, after_success = b\<rparr>"

section \<open>Properties of the quota store\<close>

lemma example_user_not_admin: "''42'' \<noteq> ADMIN_USER_ID"
  by (simp add: ADMIN_USER_ID_def)

lemmas example_defs = ann_request_def storage_down_def picture_def all_well_def delivered_def
  ann_db_def ann_row_def healthy_def

lemma code_units_eq_iff: "code_units a = code_units b \<longleftrightarrow> a = b"
proof -
  have "inj (of_char :: char \<Rightarrow> nat)" by (simp add: inj_def)
  then show ?thesis by (simp add: code_units_def inj_map_eq_map)
qed

lemma daily_limit_pos: "0 < daily_limit chatType"
  by (simp add: daily_limit_def DAILY_LIMIT_PRIVATE_def DAILY_LIMIT_GROUP_def)

lemma reserve_healthy:
  assumes "userId \<noteq> ADMIN_USER_ID" "\<not> connect_fails e" "failing_queries e = []"
  shows "reserveGenerationSlot e userId uname chatType d =
     (case increment_if_below userId (daily_limit chatType)
             (upsert_user (today e) userId uname (users d)) of
        (None, us) \<Rightarrow>
          (Returns (limit_reached_result chatType (daily_limit chatType)),
           \<lparr>users = us,
            events = events d @ [Pool_connect, Client_query, Client_query, Client_release]\<rparr>)
      | (Some c, us) \<Rightarrow>
          (Returns (slot_reserved_result (daily_limit chatType) c),
           \<lparr>users = us,
            events = events d @ [Pool_connect, Client_query, Client_query, Client_release]\<rparr>))"
  using assms
  by (simp add: reserveGenerationSlot_def reserve_body_def log_event_def query_fails_def Let_def
      split: prod.splits option.splits)

lemma upsert_current:
  "users d userId = Some r \<Longrightarrow> last_reset_date r = day \<Longrightarrow>
   upsert_user day userId uname (users d) = (users d)(userId \<mapsto> r\<lparr>username := uname\<rparr>)"
  by (cases r) (simp add: upsert_user_def)

lemma getUserStats_healthy:
  assumes "userId \<noteq> ADMIN_USER_ID" "\<not> connect_fails e" "\<not> query_fails e 0"
  shows "fst (getUserStats e userId chatType d) =
     Returns (map_option (stats_result (daily_limit chatType))
                (current_count (today e) userId (users d)))"
  using assms
  by (simp add: getUserStats_def stats_body_def log_event_def Let_def split: option.splits)

text \<open>
  C2, as the claim states it, fails: at 3 of 3 in a private chat the call is denied, yet
  the row is rewritten. The upsert runs before the conditional increment, whatever the
  count, and stores the caller's username: the row named ann is named bob afterwards.
\<close>

theorem denied_call_rewrites_username:
  "fst (reserveGenerationSlot (healthy 100) ''42'' ''bob'' ''private'' (ann_db 3 100))
     = Returns (limit_reached_result ''private'' 3)
   \<and> users (ann_db 3 100) ''42''
     = Some \<lparr>username = ''ann'', daily_image_count = 3, last_reset_date = 100\<rparr>
   \<and> users (snd (reserveGenerationSlot (healthy 100) ''42'' ''bob'' ''private'' (ann_db 3 100))) ''42''
     = Some \<lparr>username = ''bob'', daily_image_count = 3, last_reset_date = 100\<rparr>"
  by (simp add: reserveGenerationSlot_def reserve_body_def log_event_def query_fails_def
      upsert_user_def increment_if_below_def daily_limit_def DAILY_LIMIT_PRIVATE_def
      healthy_def ann_db_def ann_row_def example_user_not_admin Let_def)

text \<open>
  C2, amended. A non-administrator whose row is current (\<open>last_reset_date = today\<close>) with
  count \<open>c\<close> reserves under the limit \<open>L\<close> of the chat type, the database answering: the
  call grants (\<open>canGenerate\<close>) exactly when \<open>c < L\<close>; then the persisted count becomes
  \<open>c + 1\<close> and \<open>dailyCount = c + 1\<close>. When \<open>c \<ge> L\<close> the row keeps its count and its
  date, the conditional increment changing nothing, and the call answers
  \<open>canGenerate = false\<close>, \<open>limitReached = true\<close>. In both cases the upsert has stored the
  caller's username in the row.
\<close>

theorem reserve_on_current_row:
  assumes nonadmin: "userId \<noteq> ADMIN_USER_ID"
    and row: "users d userId = Some r"
    and current: "last_reset_date r = today e"
    and ok: "\<not> connect_fails e" "failing_queries e = []"
    and run: "reserveGenerationSlot e userId uname chatType d = (out, d')"
  shows "\<exists>res. out = Returns res \<and>
           (canGenerate res \<longleftrightarrow> daily_image_count r < daily_limit chatType) \<and>
           (daily_image_count r < daily_limit chatType \<longrightarrow>
              users d' = (users d)(userId \<mapsto>
                 r\<lparr>username := uname, daily_image_count := daily_image_count r + 1\<rparr>) \<and>
              dailyCount res = daily_image_count r + 1 \<and> \<not> limitReached res) \<and>
           (daily_image_count r \<ge> daily_limit chatType \<longrightarrow>
              users d' = (users d)(userId \<mapsto> r\<lparr>username := uname\<rparr>) \<and>
              increment_if_below userId (daily_limit chatType) (users d') = (None, users d') \<and>
              limitReached res)"
proof -
  note up = upsert_current [OF row current, of uname]
  show ?thesis
  proof (cases "daily_image_count r < daily_limit chatType")
    case True
    then have "out = Returns (slot_reserved_result (daily_limit chatType) (daily_image_count r + 1))"
      and "users d' = (users d)(userId \<mapsto>
                 r\<lparr>username := uname, daily_image_count := daily_image_count r + 1\<rparr>)"
      using run unfolding reserve_healthy [OF nonadmin ok] up
      by (auto simp: increment_if_below_def)
    with True show ?thesis by (simp add: slot_reserved_result_def Let_def)
  next
    case False
    then have "out = Returns (limit_reached_result chatType (daily_limit chatType))"
      and "users d' = (users d)(userId \<mapsto> r\<lparr>username := uname\<rparr>)"
      using run unfolding reserve_healthy [OF nonadmin ok] up
      by (auto simp: increment_if_below_def)
    with False show ?thesis by (simp add: limit_reached_result_def increment_if_below_def)
  qed
qed

theorem reserve_on_current_row_witness:
  "\<exists>res. fst (reserveGenerationSlot (healthy 100) ''42'' ''ann'' ''private'' (ann_db 2 100))
            = Returns res \<and> canGenerate res \<and> dailyCount res = 3"
proof -
  have row: "users (ann_db 2 100) ''42'' = Some (ann_row 2 100)"
    by (simp add: ann_db_def)
  have cur: "last_reset_date (ann_row 2 100) = today (healthy 100)"
    by (simp add: ann_row_def healthy_def)
  have ok: "\<not> connect_fails (healthy 100)" "failing_queries (healthy 100) = []"
    by (simp_all add: healthy_def)
  from reserve_on_current_row [where uname = "''ann''" and chatType = "''private''",
      OF example_user_not_admin row cur ok prod.collapse [symmetric]]
  show ?thesis
    by (auto simp: ann_row_def daily_limit_def DAILY_LIMIT_PRIVATE_def)
qed

text \<open>
  C4. A row dated before today with any count: the next \<open>reserveGenerationSlot\<close> behaves
  exactly as on the same row with count 0 dated today, so it grants, reports
  \<open>dailyCount = 1\<close> and persists count 1 with today's date; the next \<open>getUserStats\<close>
  answers as on that reset row, with \<open>dailyCount = 0\<close> and the whole limit remaining.
\<close>

theorem lazy_reset_on_access:
  assumes nonadmin: "userId \<noteq> ADMIN_USER_ID"
    and row: "users d userId = Some r"
    and stale: "last_reset_date r < today e"
    and ok: "\<not> connect_fails e" "failing_queries e = []"
  shows "reserveGenerationSlot e userId uname chatType d =
           reserveGenerationSlot e userId uname chatType
             (d\<lparr>users := (users d)(userId \<mapsto>
                  r\<lparr>daily_image_count := 0, last_reset_date := today e\<rparr>)\<rparr>)
         \<and> (\<exists>res. fst (reserveGenerationSlot e userId uname chatType d) = Returns res
               \<and> canGenerate res \<and> dailyCount res = 1)
         \<and> users (snd (reserveGenerationSlot e userId uname chatType d)) userId =
             Some \<lparr>username = uname, daily_image_count = 1, last_reset_date = today e\<rparr>
         \<and> fst (getUserStats e userId chatType d) =
             fst (getUserStats e userId chatType
               (d\<lparr>users := (users d)(userId \<mapsto>
                    r\<lparr>daily_image_count := 0, last_reset_date := today e\<rparr>)\<rparr>))
         \<and> (\<exists>res. fst (getUserStats e userId chatType d) = Returns (Some res)
               \<and> dailyCount res = 0 \<and> remaining res = daily_limit chatType)"
proof -
  let ?r0 = "r\<lparr>daily_image_count := 0, last_reset_date := today e\<rparr>"
  let ?d0 = "d\<lparr>users := (users d)(userId \<mapsto> ?r0)\<rparr>"
  have up: "upsert_user (today e) userId uname (users d) =
      (users d)(userId \<mapsto> \<lparr>username = uname, daily_image_count = 0, last_reset_date = today e\<rparr>)"
    using row stale by (simp add: upsert_user_def)
  have up0: "upsert_user (today e) userId uname (users ?d0) =
      (users d)(userId \<mapsto> \<lparr>username = uname, daily_image_count = 0, last_reset_date = today e\<rparr>)"
    by (simp add: upsert_user_def)
  have ev: "events ?d0 = events d" by simp
  have same: "reserveGenerationSlot e userId uname chatType d =
      reserveGenerationSlot e userId uname chatType ?d0"
    unfolding reserve_healthy [OF nonadmin ok] up up0 ev ..
  have res: "reserveGenerationSlot e userId uname chatType d =
      (Returns (slot_reserved_result (daily_limit chatType) 1),
       \<lparr>users = (users d)(userId \<mapsto>
          \<lparr>username = uname, daily_image_count = 1, last_reset_date = today e\<rparr>),
        events = events d @ [Pool_connect, Client_query, Client_query, Client_release]\<rparr>)"
    unfolding reserve_healthy [OF nonadmin ok] up
    using daily_limit_pos [of chatType] by (simp add: increment_if_below_def)
  have q: "\<not> query_fails e 0" using ok by (simp add: query_fails_def)
  have cc: "current_count (today e) userId (users d) = Some 0"
    using row stale by (simp add: current_count_def)
  have cc0: "current_count (today e) userId (users ?d0) = Some 0"
    by (simp add: current_count_def)
  have stats: "fst (getUserStats e userId chatType d) = fst (getUserStats e userId chatType ?d0)"
    unfolding getUserStats_healthy [OF nonadmin ok(1) q] cc cc0 ..
  have sres: "fst (getUserStats e userId chatType d) =
      Returns (Some (stats_result (daily_limit chatType) 0))"
    unfolding getUserStats_healthy [OF nonadmin ok(1) q] cc by simp
  have c2: "\<exists>res. fst (reserveGenerationSlot e userId uname chatType d) = Returns res
               \<and> canGenerate res \<and> dailyCount res = 1"
    unfolding res by (simp add: slot_reserved_result_def Let_def)
  have c3: "users (snd (reserveGenerationSlot e userId uname chatType d)) userId =
             Some \<lparr>username = uname, daily_image_count = 1, last_reset_date = today e\<rparr>"
    unfolding res by simp
  have c5: "\<exists>res. fst (getUserStats e userId chatType d) = Returns (Some res)
               \<and> dailyCount res = 0 \<and> remaining res = daily_limit chatType"
    unfolding sres using daily_limit_pos [of chatType] by (simp add: stats_result_def Let_def)
  show ?thesis
    by (rule conjI [OF same conjI [OF c2 conjI [OF c3 conjI [OF stats c5]]]])
qed

theorem lazy_reset_on_access_witness:
  "(\<exists>res. fst (reserveGenerationSlot (healthy 100) ''42'' ''ann'' ''private'' (ann_db 3 99))
            = Returns res \<and> canGenerate res \<and> dailyCount res = 1)
   \<and> (\<exists>res. fst (getUserStats (healthy 100) ''42'' ''private'' (ann_db 3 99)) = Returns (Some res)
            \<and> dailyCount res = 0)"
proof -
  have "users (ann_db 3 99) ''42'' = Some (ann_row 3 99)" by (simp add: ann_db_def)
  moreover have "last_reset_date (ann_row 3 99) < today (healthy 100)"
    by (simp add: ann_row_def healthy_def)
  moreover have "\<not> connect_fails (healthy 100)" "failing_queries (healthy 100) = []"
    by (simp_all add: healthy_def)
  ultimately show ?thesis
    using lazy_reset_on_access [OF example_user_not_admin, of "ann_db 3 99" "ann_row 3 99" "healthy 100"
        "''ann''" "''private''"]
    by blast
qed

text \<open>
  C5. For a non-administrator, \<open>releaseReservedSlot\<close> takes 1 off the persisted count,
  not below 0, when the row is dated today (the database answering); when the count is
  already 0, or the row is not dated today, the table stays as it was.
\<close>

theorem release_decrements_today_only:
  assumes nonadmin: "userId \<noteq> ADMIN_USER_ID"
    and row: "users d userId = Some r"
  shows "(\<not> connect_fails e \<and> failing_queries e = [] \<and> last_reset_date r = today e
            \<and> 0 \<le> daily_image_count r \<longrightarrow>
          users (snd (releaseReservedSlot e userId d)) =
            (users d)(userId \<mapsto> r\<lparr>daily_image_count := max 0 (daily_image_count r - 1)\<rparr>))
       \<and> (daily_image_count r = 0 \<or> last_reset_date r \<noteq> today e \<longrightarrow>
          users (snd (releaseReservedSlot e userId d)) = users d)"
proof -
  have triv: "(users d)(userId \<mapsto> r) = users d"
    using row by (rule map_upd_triv)
  have z: "daily_image_count r = 0 \<Longrightarrow> r\<lparr>daily_image_count := 0\<rparr> = r"
    by (cases r) simp
  show ?thesis
    using nonadmin row triv z
    by (auto simp: releaseReservedSlot_def release_body_def log_event_def query_fails_def
          decrement_today_def Let_def max_def)
qed

theorem release_decrements_today_only_witness:
  "users (snd (releaseReservedSlot (healthy 100) ''42'' (ann_db 3 100))) ''42'' = Some (ann_row 2 100)
   \<and> users (snd (releaseReservedSlot (healthy 100) ''42'' (ann_db 3 99))) = users (ann_db 3 99)
   \<and> users (snd (releaseReservedSlot (healthy 100) ''42'' (ann_db 0 100))) = users (ann_db 0 100)"
proof -
  have r1: "users (ann_db 3 100) ''42'' = Some (ann_row 3 100)"
    and r2: "users (ann_db 3 99) ''42'' = Some (ann_row 3 99)"
    and r3: "users (ann_db 0 100) ''42'' = Some (ann_row 0 100)"
    by (simp_all add: ann_db_def)
  show ?thesis
    using release_decrements_today_only [OF example_user_not_admin r1, of "healthy 100"]
      release_decrements_today_only [OF example_user_not_admin r2, of "healthy 100"]
      release_decrements_today_only [OF example_user_not_admin r3, of "healthy 100"]
    by (simp add: healthy_def ann_row_def ann_db_def)
qed

text \<open>
  C9, as the claim states it, fails: the administrator's call checks a client out of the
  shared pool before it looks at the user id, and a rejecting \<open>pool.connect()\<close> makes the
  call reject instead of granting.
\<close>

theorem admin_bypass_uses_pool:
  "Pool_connect \<in> set (events (snd (reserveGenerationSlot (healthy 100) ADMIN_USER_ID ''root'' ''private''
        \<lparr>users = Map.empty, events = []\<rparr>)))
   \<and> fst (reserveGenerationSlot \<lparr>today = 100, connect_fails = True, failing_queries = []\<rparr>
          ADMIN_USER_ID ''root'' ''private'' \<lparr>users = Map.empty, events = []\<rparr>) = Rejects"
  by (simp add: reserveGenerationSlot_def reserve_body_def log_event_def healthy_def)

text \<open>
  C9, amended. For the administrator's user id, whenever the pool hands out a client,
  \<open>reserveGenerationSlot\<close> returns \<open>canGenerate = true\<close>, \<open>isAdmin = true\<close> and
  \<open>remaining = 999\<close>, and \<open>releaseReservedSlot\<close> returns; neither issues a query nor
  changes the users table: all each does to the database is to check a client out of the
  pool and release it.
\<close>

theorem admin_bypass:
  assumes "\<not> connect_fails e"
  shows "reserveGenerationSlot e ADMIN_USER_ID uname chatType d =
           (Returns admin_result, d\<lparr>events := events d @ [Pool_connect, Client_release]\<rparr>)
       \<and> releaseReservedSlot e ADMIN_USER_ID d =
           (Returns (), d\<lparr>events := events d @ [Pool_connect, Client_release]\<rparr>)
       \<and> canGenerate admin_result \<and> isAdmin admin_result \<and> remaining admin_result = 999
       \<and> users (snd (reserveGenerationSlot e ADMIN_USER_ID uname chatType d)) = users d
       \<and> users (snd (releaseReservedSlot e ADMIN_USER_ID d)) = users d"
  using assms
  by (simp add: reserveGenerationSlot_def reserve_body_def releaseReservedSlot_def
      release_body_def log_event_def admin_result_def)

theorem admin_bypass_witness:
  "fst (reserveGenerationSlot (healthy 100) ADMIN_USER_ID ''root'' ''group'' (ann_db 3 100))
     = Returns admin_result
   \<and> users (snd (releaseReservedSlot (healthy 100) ADMIN_USER_ID (ann_db 3 100))) = users (ann_db 3 100)"
proof -
  have "\<not> connect_fails (healthy 100)" by (simp add: healthy_def)
  from admin_bypass [OF this, of "''root''" "''group''" "ann_db 3 100"] show ?thesis by simp
qed

text \<open>
  C10. \<open>getUserStats\<close> returns \<open>null\<close> for a non-administrator without a row, and
  when its query rejects.
\<close>

theorem getUserStats_null:
  assumes "userId \<noteq> ADMIN_USER_ID" and "\<not> connect_fails e"
  shows "(users d userId = None \<and> \<not> query_fails e 0 \<longrightarrow>
            fst (getUserStats e userId chatType d) = Returns None)
       \<and> (query_fails e 0 \<longrightarrow> fst (getUserStats e userId chatType d) = Returns None)"
  using assms
  by (simp add: getUserStats_def stats_body_def log_event_def current_count_def Let_def)

theorem getUserStats_null_witness:
  "fst (getUserStats (healthy 100) ''7'' ''private'' (ann_db 3 100)) = Returns None
   \<and> fst (getUserStats \<lparr>today = 100, connect_fails = False, failing_queries = [0]\<rparr>
            ''42'' ''private'' (ann_db 3 100)) = Returns None"
proof -
  have a: "''7'' \<noteq> ADMIN_USER_ID" by (simp add: ADMIN_USER_ID_def)
  have b: "\<not> connect_fails (healthy 100)" by (simp add: healthy_def)
  have c: "\<not> connect_fails \<lparr>today = 100, connect_fails = False, failing_queries = [0]\<rparr>" by simp
  from getUserStats_null [OF a b, of "ann_db 3 100" "''private''"]
    getUserStats_null [OF example_user_not_admin c, of "ann_db 3 100" "''private''"]
  show ?thesis by (simp add: ann_db_def healthy_def query_fails_def)
qed

section \<open>Storage failures during a reservation\<close>

text \<open>A rejecting query leaves the effective count as it was: no slot is consumed.\<close>

lemma upsert_keeps_effective_count:
  "effective_count day userId (upsert_user day userId uname us) = effective_count day userId us"
  by (simp add: effective_count_def upsert_user_def split: option.splits)

text \<open>
  C6, as the claim states it, fails: the answer to a rejected query is flagged
  \<open>limitReached = true\<close>, and step1, which shows its own texts for every denied
  reservation, tells the user that the private-chat limit (3/3) is used up.
\<close>

theorem storage_failure_shown_as_limit:
  "fst (reserveGenerationSlot storage_down ''42'' ''ann'' ''private'' (ann_db 0 100))
     = Returns reservation_error
   \<and> message reservation_error = Reservation_error_try_later
   \<and> limitReached reservation_error
   \<and> out_response (fst (step1 (all_well storage_down) ann_request (ann_db 0 100))) = Limit_private_3"
  by (simp add: example_defs step1_def reserveGenerationSlot_def reserve_body_def log_event_def
      query_fails_def reservation_error_def limit_reply_def or_else_def truthy_def has_files_def
      example_user_not_admin code_units_eq_iff Let_def)

text \<open>
  C6, amended. Whenever a query rejects during \<open>reserveGenerationSlot\<close> for a
  non-administrator (the client having been checked out), the call fails closed: it
  returns \<open>canGenerate = false\<close>, flagged \<open>limitReached = true\<close>, with the try-later
  advisory text of its own, and the user's effective count is what it was.
\<close>

theorem reserve_fails_closed:
  assumes "userId \<noteq> ADMIN_USER_ID" "\<not> connect_fails e" "query_fails e 0 \<or> query_fails e 1"
  shows "fst (reserveGenerationSlot e userId uname chatType d) = Returns reservation_error
       \<and> \<not> canGenerate reservation_error \<and> limitReached reservation_error
       \<and> message reservation_error = Reservation_error_try_later
       \<and> effective_count (today e) userId (users (snd (reserveGenerationSlot e userId uname chatType d)))
           = effective_count (today e) userId (users d)"
  using assms
  by (auto simp: reserveGenerationSlot_def reserve_body_def log_event_def Let_def
      reservation_error_def upsert_keeps_effective_count)

theorem reserve_fails_closed_witness:
  "fst (reserveGenerationSlot storage_down ''42'' ''ann'' ''private'' (ann_db 0 100))
     = Returns reservation_error
   \<and> fst (reserveGenerationSlot \<lparr>today = 100, connect_fails = False, failing_queries = [1]\<rparr>
           ''42'' ''ann'' ''private'' (ann_db 5 99))
     = Returns reservation_error"
proof -
  have a: "\<not> connect_fails storage_down" "query_fails storage_down 0 \<or> query_fails storage_down 1"
    by (simp_all add: storage_down_def query_fails_def)
  have b: "\<not> connect_fails \<lparr>today = 100, connect_fails = False, failing_queries = [1]\<rparr>"
    "query_fails \<lparr>today = 100, connect_fails = False, failing_queries = [1]\<rparr> 0
     \<or> query_fails \<lparr>today = 100, connect_fails = False, failing_queries = [1]\<rparr> 1"
    by (simp_all add: query_fails_def)
  from reserve_fails_closed [OF example_user_not_admin a, of "''ann''" "''private''" "ann_db 0 100"]
    reserve_fails_closed [OF example_user_not_admin b, of "''ann''" "''private''" "ann_db 5 99"]
  show ?thesis by simp
qed

text \<open>White space beyond Latin-1 is trimmed as well; a prompt is not blank.\<close>

lemma blank_examples:
  "blank [0x3000, 0xFEFF, 0x2003, 0xA0, 0x20] \<and> \<not> blank (code_units ''a cat'')"
  by (simp add: blank_def white_space_def code_units_def)

text \<open>After a denied reservation step1 answers with the limit text and generates nothing.\<close>

lemma step1_denied:
  assumes "in_message i \<noteq> code_units ''/start''"
    and "\<not> (has_files (in_fileIds i) \<and> (in_message i = [] \<or> blank (in_message i)))"
    and "fst (reserveGenerationSlot (reserve_env e) (in_userId i)
               (or_else (in_userName i) ''Unknown'')
               (if in_chatType i = [] then ''private'' else in_chatType i) d) = Returns slot"
    and "\<not> canGenerate slot"
  shows "fst (step1 e i d) = limit_reply i"
proof -
  obtain out d1 where r: "reserveGenerationSlot (reserve_env e) (in_userId i)
               (or_else (in_userName i) ''Unknown'')
               (if in_chatType i = [] then ''private'' else in_chatType i) d = (out, d1)"
    by (cases "reserveGenerationSlot (reserve_env e) (in_userId i)
               (or_else (in_userName i) ''Unknown'')
               (if in_chatType i = [] then ''private'' else in_chatType i) d")
  with assms(3) have "out = Returns slot" by simp
  with r assms(1,2,4) show ?thesis unfolding step1_def by auto
qed

section \<open>Concurrent reservations never exceed the limit\<close>

lemma upsert_makes_current:
  "row_is_current day userId (upsert_user day userId uname us)"
  by (simp add: row_is_current_def upsert_user_def split: option.splits)

text \<open>
  One call run alone, its three awaits in a row, is \<open>reserveGenerationSlot\<close>.
\<close>

lemma sequential_run:
  "run_schedule (today e) userId chatType
     [(0, connect_fails e), (0, query_fails e 0), (0, query_fails e 1)] ([(uname, Issued)], d)
   = ([(uname, Finished (fst (reserveGenerationSlot e userId uname chatType d)))],
      snd (reserveGenerationSlot e userId uname chatType d))"
  by (simp add: reserve_step_def reserveGenerationSlot_def reserve_body_def Let_def
      split: prod.splits option.splits)

lemma reserve_step_effect:
  assumes nonadmin: "userId \<noteq> ADMIN_USER_ID"
    and step: "reserve_step day rejects userId uname chatType st d = (st', d')"
    and cur: "st = Upserted \<longrightarrow> row_is_current day userId (users d)"
  shows "(row_is_current day userId (users d) \<longrightarrow> row_is_current day userId (users d'))
       \<and> (st' = Upserted \<longrightarrow> row_is_current day userId (users d'))
       \<and> grant_value st' + headroom day userId chatType (users d')
           \<le> grant_value st + headroom day userId chatType (users d)"
proof (cases st)
  case Issued
  with nonadmin step show ?thesis
    by (auto simp: reserve_step_def log_event_def Let_def grant_value_def granted_def
        split: if_splits)
next
  case Connected
  with step show ?thesis
    by (auto simp: reserve_step_def log_event_def grant_value_def granted_def headroom_def
        reservation_error_def upsert_keeps_effective_count upsert_makes_current
        split: if_splits)
next
  case Upserted
  with cur obtain r where row: "users d userId = Some r" and fresh: "day \<le> last_reset_date r"
    by (auto simp: row_is_current_def split: option.splits)
  show ?thesis
  proof (cases "rejects \<or> \<not> daily_image_count r < daily_limit chatType")
    case True
    with Upserted step row fresh show ?thesis
      by (auto simp: reserve_step_def log_event_def grant_value_def granted_def
          reservation_error_def limit_reached_result_def increment_if_below_def
          split: if_splits)
  next
    case False
    with Upserted step row have st': "st' = Finished (Returns (slot_reserved_result
          (daily_limit chatType) (daily_image_count r + 1)))"
      and us': "users d' = (users d)(userId \<mapsto> r\<lparr>daily_image_count := daily_image_count r + 1\<rparr>)"
      by (auto simp: reserve_step_def log_event_def increment_if_below_def)
    have "grant_value st' = 1" "grant_value st = 0"
      using Upserted by (simp_all add: st' grant_value_def granted_def slot_reserved_result_def Let_def)
    moreover have "effective_count day userId (users d) = daily_image_count r"
      "effective_count day userId (users d') = daily_image_count r + 1"
      using row fresh by (simp_all add: us' effective_count_def)
    moreover have "row_is_current day userId (users d')"
      using fresh by (simp add: us' row_is_current_def)
    ultimately show ?thesis using False st' by (simp add: headroom_def)
  qed
next
  case (Finished x)
  with step show ?thesis by (auto simp: reserve_step_def)
qed

lemma count_after_update:
  "i < length xs \<Longrightarrow>
   int (length (filter P (xs[i := x]))) + (if P (xs ! i) then 1 else 0) =
   int (length (filter P xs)) + (if P x then 1 else 0)"
proof (induction xs arbitrary: i)
  case Nil
  then show ?case by simp
next
  case (Cons y ys)
  show ?case
  proof (cases i)
    case 0
    then show ?thesis by simp
  next
    case (Suc j)
    with Cons.prems have "j < length ys" by simp
    from Cons.IH [OF this] Suc show ?thesis by (auto split: if_splits)
  qed
qed

lemma grants_after_update:
  assumes "i < length cs"
  shows "int (grants (cs[i := (u, st)])) + grant_value (snd (cs ! i)) =
         int (grants cs) + grant_value st"
  using count_after_update [OF assms, of "\<lambda>c. granted (snd c)" "(u, st)"]
  by (simp add: grants_def grant_value_def)

lemma upserted_after_update:
  assumes "list_ex (\<lambda>c. snd c = Upserted) (cs[i := (u, st)])"
  shows "st = Upserted \<or> list_ex (\<lambda>c. snd c = Upserted) cs"
proof -
  from assms obtain c where c: "c \<in> set (cs[i := (u, st)])" "snd c = Upserted"
    by (auto simp: list_ex_iff)
  from c(1) have "c = (u, st) \<or> c \<in> set cs"
    using set_update_subset_insert [of cs i "(u, st)"] by auto
  with c(2) show ?thesis by (auto simp: list_ex_iff)
qed

lemma invariant_step:
  assumes nonadmin: "userId \<noteq> ADMIN_USER_ID"
    and inv: "reservation_invariant day userId chatType bound (cs, d)"
    and i: "i < length cs"
    and step: "reserve_step day rejects userId (fst (cs ! i)) chatType (snd (cs ! i)) d = (st, d')"
  shows "reservation_invariant day userId chatType bound (cs[i := (fst (cs ! i), st)], d')"
proof -
  from inv have wait: "list_ex (\<lambda>c. snd c = Upserted) cs \<longrightarrow> row_is_current day userId (users d)"
    and le: "int (grants cs) + headroom day userId chatType (users d) \<le> bound"
    by (simp_all add: reservation_invariant_def)
  have "snd (cs ! i) = Upserted \<longrightarrow> list_ex (\<lambda>c. snd c = Upserted) cs"
    using i by (auto simp: list_ex_iff)
  with wait have cur: "snd (cs ! i) = Upserted \<longrightarrow> row_is_current day userId (users d)"
    by simp
  from reserve_step_effect [OF nonadmin step cur]
  have keep: "row_is_current day userId (users d) \<longrightarrow> row_is_current day userId (users d')"
    and new: "st = Upserted \<longrightarrow> row_is_current day userId (users d')"
    and dec: "grant_value st + headroom day userId chatType (users d')
           \<le> grant_value (snd (cs ! i)) + headroom day userId chatType (users d)"
    by simp_all
  have a: "list_ex (\<lambda>c. snd c = Upserted) (cs[i := (fst (cs ! i), st)]) \<longrightarrow>
        row_is_current day userId (users d')"
    using upserted_after_update [of cs i "fst (cs ! i)" st] wait keep new by blast
  have b: "int (grants (cs[i := (fst (cs ! i), st)])) + headroom day userId chatType (users d') \<le> bound"
    using grants_after_update [OF i, of "fst (cs ! i)" st] dec le by linarith
  from a b show ?thesis by (simp add: reservation_invariant_def)
qed

lemma invariant_run:
  assumes nonadmin: "userId \<noteq> ADMIN_USER_ID"
  shows "reservation_invariant day userId chatType bound s \<Longrightarrow>
         reservation_invariant day userId chatType bound (run_schedule day userId chatType sch s)"
proof (induction sch arbitrary: s)
  case Nil
  then show ?case by simp
next
  case (Cons a sch)
  obtain i rejects where a: "a = (i, rejects)" by (cases a)
  obtain cs d where s: "s = (cs, d)" by (cases s)
  show ?case
  proof (cases "i < length cs")
    case True
    obtain st d' where step:
      "reserve_step day rejects userId (fst (cs ! i)) chatType (snd (cs ! i)) d = (st, d')"
      by (cases "reserve_step day rejects userId (fst (cs ! i)) chatType (snd (cs ! i)) d")
    from invariant_step [OF nonadmin Cons.prems [unfolded s] True step]
    have "reservation_invariant day userId chatType bound (cs[i := (fst (cs ! i), st)], d')" .
    from Cons.IH [OF this] True step show ?thesis by (simp add: a s)
  next
    case False
    with Cons.IH [OF Cons.prems] show ?thesis by (simp add: a s)
  qed
qed

lemma grants_issued: "grants (issued unames) = 0"
  by (simp add: grants_def issued_def filter_map o_def granted_def)

lemma invariant_initially:
  "reservation_invariant day userId chatType (headroom day userId chatType (users d))
     (issued unames, d)"
proof -
  have "\<not> list_ex (\<lambda>c. snd c = Upserted) (issued unames)"
    by (auto simp: list_ex_iff issued_def)
  then show ?thesis by (simp add: reservation_invariant_def grants_issued)
qed

lemmas run_defs = reserve_step_def log_event_def upsert_user_def increment_if_below_def
  slot_reserved_result_def limit_reached_result_def reservation_error_def admin_result_def
  daily_limit_def DAILY_LIMIT_PRIVATE_def DAILY_LIMIT_GROUP_def issued_def grants_def
  granted_def ann_db_def ann_row_def Let_def

text \<open>
  C1, as the claim states it, fails: a row with persisted count 3 dated yesterday leaves
  no room under the limit 3, yet the lazy reset lets the call through; and the
  administrator is granted whatever the count.
\<close>

theorem grants_exceed_persisted_headroom:
  "daily_limit ''private'' - daily_image_count (ann_row 3 99)
     < int (grants (fst (run_schedule 100 ''42'' ''private'' [(0, False), (0, False), (0, False)]
                          (issued [''ann''], ann_db 3 99))))
   \<and> daily_limit ''private'' - daily_image_count (ann_row 3 100)
     < int (grants (fst (run_schedule 100 ADMIN_USER_ID ''private'' [(0, False)]
                          (issued [''root''],
                           \<lparr>users = [ADMIN_USER_ID \<mapsto> ann_row 3 100], events = []\<rparr>))))"
  by (simp add: run_defs example_user_not_admin)

text \<open>
  C1, amended. For a non-administrator, on one calendar day and under the limit of one chat
  type: however the awaits of any number of concurrent \<open>reserveGenerationSlot\<close> calls
  interleave, and whichever of the awaited operations reject, the number of calls that
  return \<open>canGenerate = true\<close> is at most \<open>max 0 (limit - c)\<close>, where \<open>c\<close> is the
  effective count at the start (the persisted count, or 0 without a row or with a row
  dated before today).
\<close>

theorem concurrent_grants_bounded:
  assumes "userId \<noteq> ADMIN_USER_ID"
  shows "int (grants (fst (run_schedule day userId chatType sch (issued unames, d))))
           \<le> max 0 (daily_limit chatType - effective_count day userId (users d))"
proof -
  obtain cs' d' where r: "run_schedule day userId chatType sch (issued unames, d) = (cs', d')"
    by (cases "run_schedule day userId chatType sch (issued unames, d)")
  have "reservation_invariant day userId chatType (headroom day userId chatType (users d))
      (issued unames, d)"
    by (rule invariant_initially)
  from invariant_run [OF assms this]
  have "reservation_invariant day userId chatType (headroom day userId chatType (users d))
      (run_schedule day userId chatType sch (issued unames, d))" .
  then have "int (grants cs') + headroom day userId chatType (users d')
          \<le> headroom day userId chatType (users d)"
    by (simp add: r reservation_invariant_def)
  moreover have "0 \<le> headroom day userId chatType (users d')" by (simp add: headroom_def)
  ultimately show ?thesis by (simp add: r headroom_def)
qed

theorem concurrent_grants_bounded_witness:
  "int (grants (fst (run_schedule 100 ''42'' ''private''
        [(0, False), (1, False), (1, False), (0, False), (1, False), (0, False)]
        (issued [''ann'', ''ann''], ann_db 2 100)))) \<le> 1"
proof -
  have "max 0 (daily_limit ''private'' - effective_count 100 ''42'' (users (ann_db 2 100))) = 1"
    by (simp add: daily_limit_def DAILY_LIMIT_PRIVATE_def effective_count_def ann_db_def
        ann_row_def)
  with concurrent_grants_bounded [OF example_user_not_admin, of 100 "''private''"
      "[(0, False), (1, False), (1, False), (0, False), (1, False), (0, False)]"
      "[''ann'', ''ann'']" "ann_db 2 100"]
  show ?thesis by simp
qed

text \<open>The bound is reached: of two interleaved calls at count 2 of 3, one is granted.\<close>

lemma interleaved_example:
  "map snd (fst (run_schedule 100 ''42'' ''private''
        [(0, False), (1, False), (1, False), (0, False), (1, False), (0, False)]
        (issued [''ann'', ''ann''], ann_db 2 100)))
   = [Finished (Returns (limit_reached_result ''private'' 3)),
      Finished (Returns (slot_reserved_result 3 3))]"
  by (simp add: run_defs example_user_not_admin)

section \<open>Delivery and the quota\<close>

text \<open>
  Whatever the helper, step2 leaves the database alone when the delivery fails (the
  reserved slot is not released), and after a photo it reports as sent it has applied the
  helper once. A text reply never touches the database.
\<close>

lemma step2_failure_keeps_db:
  "delivery_fails e i \<Longrightarrow> step2 incr e i d = (not_sent, d)"
  by (auto simp: step2_def delivery_fails_def split: telegram_outcome.splits)

lemma step2_photo_delivered:
  assumes "sent_success (fst (step2 incr e i d))" "truthy (out_imagePath i)"
  shows "snd (step2 incr e i d) = count_delivery incr (out_userId i) d"
  using assms
  by (auto simp: step2_def not_sent_def
      split: if_splits telegram_outcome.splits telegram_body.splits)

lemma step2_text_keeps_db:
  "\<not> truthy (out_imagePath i) \<Longrightarrow> snd (step2 incr e i d) = d"
  by (auto simp: step2_def split: telegram_outcome.splits telegram_body.splits)

text \<open>
  An \<open>ok\<close> response whose body is \<open>null\<close>, without a logger: the helper is applied and
  step2 still reports that nothing was sent.
\<close>

lemma step2_null_body:
  "step2 incr
     \<lparr>token_present = True, temp_file_readable = True, logger_present = False,
      telegram = Response True Null_body\<rparr>
     (image_reply ann_request picture ''/tmp/nano_banana_0a1b.jpg'') d
   = (not_sent, count_delivery incr ''42'' d)"
  by (simp add: step2_def image_reply_def ann_request_def truthy_def starts_with_def)

text \<open>
  C3 fails on the code: ann, at count 0 today, asks for a picture in a private chat; the
  reservation in step1 takes the count to 1, and after the photo is delivered step2
  increments it once more, to 2.
\<close>

theorem delivery_counts_again:
  "users (snd (step1 (all_well (healthy 100)) ann_request (ann_db 0 100))) ''42''
     = Some (ann_row 1 100)
   \<and> users (snd (telegramBotWorkflow incrementUserImageCount (all_well (healthy 100)) delivered
                   ann_request (ann_db 0 100))) ''42''
     = Some (ann_row 2 100)"
  by (simp add: example_defs telegramBotWorkflow_def step1_def after_reservation_def
      reserveGenerationSlot_def reserve_body_def log_event_def query_fails_def
      upsert_user_def increment_if_below_def slot_reserved_result_def daily_limit_def
      DAILY_LIMIT_PRIVATE_def generation_result_def image_reply_def step2_def count_delivery_def
      incrementUserImageCount_def starts_with_def or_else_def truthy_def has_files_def
      example_user_not_admin code_units_eq_iff Let_def)

section \<open>The fallback chain\<close>

lemmas chain_defs = cat_request_def chain_def fails_with_def produces_def
  generateNanoBananoImage_def generated_result_def failure_result_def reported_error_def
  truthy_def has_files_def

lemma try_methods_all_fail:
  "\<forall>a \<in> set as. \<not> succeeds (answer a) \<Longrightarrow>
   try_methods rq as lastError n =
     (None, if as = [] then lastError else method_error (answer (last as)), n + length as)"
proof (induction as arbitrary: lastError n)
  case Nil
  then show ?case by simp
next
  case (Cons a as)
  then have rest: "\<forall>a \<in> set as. \<not> succeeds (answer a)" and here: "\<not> succeeds (answer a)"
    by simp_all
  show ?case
  proof (cases "answer a")
    case (Method_returns ok img msg)
    with here have "\<not> (ok \<and> truthy img)" by (simp add: succeeds_def)
    with Method_returns Cons.IH [OF rest] show ?thesis
      by (auto simp: method_error_def)
  next
    case (Method_throws m)
    with Cons.IH [OF rest] show ?thesis by (simp add: method_error_def)
  qed
qed

lemma try_methods_first_success:
  assumes "\<forall>a \<in> set pre. \<not> succeeds (answer a)"
    and "answer a = Method_returns True (Some img) msg" and "img \<noteq> []"
    and "after_success a = Counted cnt"
  shows "try_methods rq (pre @ a # post) lastError n =
     (Some (generated_result rq img cnt),
      if pre = [] then lastError else method_error (answer (last pre)), n + length pre + 1)"
  using assms(1)
proof (induction pre arbitrary: lastError n)
  case Nil
  with assms(2-4) show ?case by (simp add: truthy_def)
next
  case (Cons b pre)
  then have rest: "\<forall>a \<in> set pre. \<not> succeeds (answer a)" and here: "\<not> succeeds (answer b)"
    by simp_all
  show ?case
  proof (cases "answer b")
    case (Method_returns ok im ms)
    with here have "\<not> (ok \<and> truthy im)" by (simp add: succeeds_def)
    with Method_returns Cons.IH [OF rest] show ?thesis
      by (auto simp: method_error_def)
  next
    case (Method_throws m)
    with Cons.IH [OF rest] show ?thesis by (simp add: method_error_def)
  qed
qed

text \<open>
  When the two calls after the first success return, the result is that method's image
  and no later method is invoked.
\<close>

lemma first_success_returned:
  assumes "has_api_key e" "\<not> upsert_throws e" "limit_check e = Some reached"
    and "\<not> (reached \<and> \<not> is_admin_user e)"
    and "attempts e = pre @ a # post"
    and "\<forall>a \<in> set pre. \<not> succeeds (answer a)"
    and "answer a = Method_returns True (Some img) msg" and "img \<noteq> []"
    and "after_success a = Counted cnt"
  shows "generateNanoBananoImage e rq =
     (generated_result rq img cnt, \<lparr>invoked = length pre + 1, logged_error = None\<rparr>)"
  using assms(1-5) try_methods_first_success [OF assms(6-9), of rq post "Error_text []" 0]
  by (simp add: generateNanoBananoImage_def)

text \<open>
  C7 fails on the code. When the two calls after the first success return, the first
  method's image is the result and one method was invoked. When \<open>saveImageGeneration\<close>
  (or \<open>incrementUserImageCount\<close>) throws, the \<open>catch\<close> of the loop takes it for a
  failed method, and the second method is invoked; the result is the second method's image.
\<close>

theorem later_method_invoked_after_success:
  "generateNanoBananoImage
     (chain [produces ''AAAA'' (Counted 1), produces ''BBBB'' (Counted 2)]) cat_request
   = (generated_result cat_request ''AAAA'' 1, \<lparr>invoked = 1, logged_error = None\<rparr>)
   \<and> generateNanoBananoImage
     (chain [produces ''AAAA'' (Bookkeeping_throws ''connection lost''),
             produces ''BBBB'' (Counted 1)]) cat_request
   = (generated_result cat_request ''BBBB'' 1, \<lparr>invoked = 2, logged_error = None\<rparr>)"
proof -
  have returned: "try_methods cat_request
      [produces ''AAAA'' (Counted 1), produces ''BBBB'' (Counted 2)] (Error_text []) 0
    = (Some (generated_result cat_request ''AAAA'' 1), Error_text [], 1)"
    by (simp add: produces_def truthy_def)
  have dropped: "try_methods cat_request
      [produces ''AAAA'' (Bookkeeping_throws ''connection lost''), produces ''BBBB'' (Counted 1)]
      (Error_text []) 0
    = (Some (generated_result cat_request ''BBBB'' 1), Error_text ''connection lost'', 2)"
    by (simp add: produces_def truthy_def)
  from returned dropped show ?thesis
    by (simp add: generateNanoBananoImage_def chain_def)
qed

text \<open>
  C8, as the claim states it, fails: the result of a chain whose last method failed with
  one text is the result of a chain whose last method failed with another; it holds the
  fixed text and no error.
\<close>

theorem failure_result_without_error:
  "fst (generateNanoBananoImage (chain [fails_with ''quota'', fails_with ''timeout'']) cat_request)
     = fst (generateNanoBananoImage (chain [fails_with ''quota'', fails_with ''overloaded'']) cat_request)
   \<and> fst (generateNanoBananoImage (chain [fails_with ''quota'', fails_with ''timeout'']) cat_request)
     = \<lparr>nb_success = False, nb_imageBase64 = None, nb_message = All_methods_failed,
        nb_dailyCount = None, nb_limitReached = False\<rparr>"
  by (simp add: chain_defs)

text \<open>
  C8, amended. Whenever every method of the chain fails, a thrown exception counting as a
  reported failure, the function returns the failure result with the fixed text
  \<open>All_methods_failed\<close> and \<open>limitReached = false\<close>, having invoked every method in
  order; the error of the last method is written to the error log and is not part of the
  result.
\<close>

theorem all_methods_fail:
  assumes "has_api_key e" "\<not> upsert_throws e" "limit_check e = Some reached"
    and "\<not> (reached \<and> \<not> is_admin_user e)"
    and "\<forall>a \<in> set (attempts e). \<not> succeeds (answer a)"
    and "attempts e \<noteq> []"
  shows "generateNanoBananoImage e rq =
     (failure_result All_methods_failed,
      \<lparr>invoked = length (attempts e),
       logged_error = Some (method_error (answer (last (attempts e))))\<rparr>)"
  using assms(1-4,6) try_methods_all_fail [OF assms(5), of rq "Error_text []" 0]
  by (simp add: generateNanoBananoImage_def)

theorem all_methods_fail_witness:
  "generateNanoBananoImage (chain [fails_with ''quota'',
        \<lparr>answer = Method_throws ''timeout'', after_success = Counted 0\<rparr>]) cat_request =
     (failure_result All_methods_failed,
      \<lparr>invoked = 2, logged_error = Some (Error_text ''timeout'')\<rparr>)"
  using all_methods_fail [of "chain [fails_with ''quota'',
        \<lparr>answer = Method_throws ''timeout'', after_success = Counted 0\<rparr>]" False cat_request]
  by (simp add: chain_def fails_with_def succeeds_def method_error_def)

end
